theory Spec2Isabelle
  imports Main
begin

section \<open>The data-fetching hook \<open>useFetchData\<close>\<close>

text \<open>
  The hook of \<^verbatim>\<open>src/hooks/useFetchData.js\<close> (listed in README.md, lines 157-199) keeps
  three pieces of React state, \<open>data\<close>, \<open>loading\<close> and \<open>error\<close>, and one asynchronous
  function \<open>fetchData\<close> with two suspension points (\<^verbatim>\<open>await fetch(url, options)\<close> and
  \<^verbatim>\<open>await response.json()\<close>). The embedding is a transition system: the state is the
  hook's state together with the console and the attempts in flight; an event is a call of
  \<open>fetchData\<close> or the settling of one awaited promise, with the outcome the environment
  (the transport, the decoder) chose. State setters take effect in program order.
\<close>

subsection \<open>JavaScript values\<close>

text \<open>
  The values the hook stores and logs. \<open>JError m\<close> is an instance of \<open>Error\<close> (or of a
  subclass: the \<open>TypeError\<close> of a failed request, the \<open>SyntaxError\<close> of a failed decode)
  whose \<open>message\<close> is \<open>m\<close>. The hook never computes with numbers, so integers stand for
  them.
\<close>

datatype js_value =
    JUndefined
  | JNull
  | JBool bool
  | JNumber int
  | JString string
  | JArray "js_value list"
  | JObject "(string \<times> js_value) list"
  | JError string

text \<open>
  The property read \<^verbatim>\<open>err.message\<close>. Reading a property of \<open>undefined\<close> or \<open>null\<close> throws
  a \<open>TypeError\<close> (the result \<open>None\<close>); a primitive or an array has no such property and
  the read gives \<open>undefined\<close>; a plain object gives the property when it has one.
\<close>

fun get_message :: "js_value \<Rightarrow> js_value option" where
  "get_message JUndefined = None"
| "get_message JNull = None"
| "get_message (JError m) = Some (JString m)"
| "get_message (JObject kvs) =
     Some (case map_of kvs ''message'' of None \<Rightarrow> JUndefined | Some v \<Rightarrow> v)"
| "get_message (JBool b) = Some JUndefined"
| "get_message (JNumber n) = Some JUndefined"
| "get_message (JString s) = Some JUndefined"
| "get_message (JArray vs) = Some JUndefined"

text \<open>JavaScript's truthiness, as the \<^verbatim>\<open>if (error)\<close> of the consumers reads a value.\<close>

fun truthy :: "js_value \<Rightarrow> bool" where
  "truthy JUndefined = False"
| "truthy JNull = False"
| "truthy (JBool b) = b"
| "truthy (JNumber n) = (n \<noteq> 0)"
| "truthy (JString s) = (s \<noteq> [])"
| "truthy (JArray vs) = True"
| "truthy (JObject kvs) = True"
| "truthy (JError m) = True"

subsection \<open>Transport, console and hook state\<close>

text \<open>How an awaited promise settles: it resolves with a value or rejects with a thrown value.\<close>

datatype 'a settled = Resolves 'a | Rejects js_value

text \<open>What the hook reads of a \<open>Response\<close>: only \<open>ok\<close>; status and status text come along.\<close>

record response =
  ok :: bool
  status :: nat
  statusText :: string

type_synonym options = "(string \<times> js_value) list"

text \<open>The arguments of one call \<^verbatim>\<open>fetch(url, options)\<close>.\<close>

record request =
  req_url :: string
  req_options :: options

text \<open>
  The three \<^verbatim>\<open>console.log\<close> calls: \<^verbatim>\<open>chalk.blue(text)\<close>, \<^verbatim>\<open>chalk.green(text), result\<close>
  and \<^verbatim>\<open>chalk.red(text), err.message\<close>.
\<close>

datatype log_line =
    Blue string
  | Green string js_value
  | Red string js_value

text \<open>
  Where one call of \<open>fetchData\<close> stands: suspended at the first or at the second
  \<open>await\<close>, returned (its promise fulfilled), or left by an exception thrown inside the
  \<open>catch\<close> block (its promise rejected).
\<close>

datatype phase = AwaitFetch | AwaitJson | Fulfilled | Rejected

record hook =
  data :: js_value
  loading :: bool
  error :: js_value
  console :: "log_line list"
  url :: string
  options :: options
  attempts :: "(request \<times> phase) list"

text \<open>The three \<open>useState\<close> calls (lines 167-169), for the arguments of the first render.\<close>

definition useState_initial :: "string \<Rightarrow> options \<Rightarrow> hook" where
  "useState_initial u opts =
     \<lparr>data = JNull, loading = True, error = JNull, console = [],
      url = u, options = opts, attempts = []\<rparr>"

text \<open>What the hook returns to its consumer (line 196), \<open>refetch\<close> apart.\<close>

definition observe :: "hook \<Rightarrow> js_value \<times> bool \<times> js_value" where
  "observe h = (data h, loading h, error h)"

subsection \<open>\<open>fetchData\<close>, piece by piece\<close>

text \<open>
  Lines 173-177 up to the first \<open>await\<close>: \<open>setLoading(true)\<close>, the blue line, and the
  call of \<open>fetch\<close> with the \<open>url\<close> and \<open>options\<close> of the current render. The new attempt
  is the last of the list; its number is its position.
\<close>

definition fetchData :: "hook \<Rightarrow> hook" where
  "fetchData h =
     h\<lparr>loading := True,
       console := console h @ [Blue (''Fetching data from: '' @ url h)],
       attempts := attempts h @ [(\<lparr>req_url = url h, req_options = options h\<rparr>, AwaitFetch)]\<rparr>"

definition set_phase :: "nat \<Rightarrow> phase \<Rightarrow> hook \<Rightarrow> hook" where
  "set_phase i p h = h\<lparr>attempts := (attempts h)[i := (fst (attempts h ! i), p)]\<rparr>"

text \<open>
  Lines 183-188, entered with the thrown value \<open>err\<close>. The arguments of \<open>console.log\<close>
  are evaluated first, so when \<^verbatim>\<open>err.message\<close> throws nothing is logged and \<open>setError\<close>
  is not reached; \<open>finally\<close> runs \<open>setLoading(false)\<close> in both cases.
\<close>

definition catch_finally :: "nat \<Rightarrow> js_value \<Rightarrow> hook \<Rightarrow> hook" where
  "catch_finally i err h =
     (case get_message err of
        None \<Rightarrow> set_phase i Rejected (h\<lparr>loading := False\<rparr>)
      | Some m \<Rightarrow>
          set_phase i Fulfilled
            (h\<lparr>console := console h @ [Red ''Error fetching data:'' m],
               error := m,
               loading := False\<rparr>))"

text \<open>
  The first \<open>await\<close> resumes (lines 177-180): a rejection goes to \<open>catch\<close>; a response
  that is not \<open>ok\<close> throws \<^verbatim>\<open>new Error("Failed to fetch data")\<close>; otherwise
  \<^verbatim>\<open>response.json()\<close> is called and the attempt suspends again.
\<close>

definition resume_fetch :: "nat \<Rightarrow> response settled \<Rightarrow> hook \<Rightarrow> hook" where
  "resume_fetch i outcome h =
     (case outcome of
        Rejects err \<Rightarrow> catch_finally i err h
      | Resolves r \<Rightarrow>
          if \<not> ok r then catch_finally i (JError ''Failed to fetch data'') h
          else set_phase i AwaitJson h)"

text \<open>
  The second \<open>await\<close> resumes (lines 180-182, then \<open>finally\<close>): the green line,
  \<open>setData(result)\<close>, \<open>setLoading(false)\<close>; a rejection goes to \<open>catch\<close>.
\<close>

definition resume_json :: "nat \<Rightarrow> js_value settled \<Rightarrow> hook \<Rightarrow> hook" where
  "resume_json i outcome h =
     (case outcome of
        Rejects err \<Rightarrow> catch_finally i err h
      | Resolves result \<Rightarrow>
          set_phase i Fulfilled
            (h\<lparr>console := console h @ [Green ''Data fetched successfully!'' result],
               data := result,
               loading := False\<rparr>))"

subsection \<open>Events and runs\<close>

text \<open>
  \<open>Refetch\<close> is the consumer calling \<open>refetch\<close>, which is \<open>fetchData\<close> (line 196).
  \<open>Rerender u opts\<close> is a render with new arguments: the effect of lines 192-194 calls
  \<open>fetchData\<close> when \<open>url\<close> changed. \<open>FetchSettles i\<close> and \<open>JsonSettles i\<close> resume attempt
  \<open>i\<close> at its first and second \<open>await\<close>; they are enabled only when the attempt is
  suspended there.
\<close>

datatype event =
    Refetch
  | Rerender string options
  | FetchSettles nat "response settled"
  | JsonSettles nat "js_value settled"

definition phase_of :: "hook \<Rightarrow> nat \<Rightarrow> phase option" where
  "phase_of h i = (if i < length (attempts h) then Some (snd (attempts h ! i)) else None)"

fun step :: "hook \<Rightarrow> event \<Rightarrow> hook option" where
  "step h Refetch = Some (fetchData h)"
| "step h (Rerender u opts) =
     Some (if u \<noteq> url h then fetchData (h\<lparr>url := u, options := opts\<rparr>)
           else h\<lparr>url := u, options := opts\<rparr>)"
| "step h (FetchSettles i outcome) =
     (if phase_of h i = Some AwaitFetch then Some (resume_fetch i outcome h) else None)"
| "step h (JsonSettles i outcome) =
     (if phase_of h i = Some AwaitJson then Some (resume_json i outcome h) else None)"

fun run :: "hook \<Rightarrow> event list \<Rightarrow> hook option" where
  "run h [] = Some h"
| "run h (e # es) = (case step h e of None \<Rightarrow> None | Some h' \<Rightarrow> run h' es)"

text \<open>Mounting: the first render, then the effect (lines 192-194) calls \<open>fetchData\<close>.\<close>

definition mount :: "string \<Rightarrow> options \<Rightarrow> hook" where
  "mount u opts = fetchData (useState_initial u opts)"

subsection \<open>The consumer's reading of the state\<close>

text \<open>
  Users.jsx, lines 9-21 (Posts.jsx alike). The component returns the loading paragraph
  when \<open>loading\<close>, the error paragraph when \<open>error\<close> is truthy, and otherwise the list
  built by \<^verbatim>\<open>data.map((user) => <li key={user.id}>{user.name}</li>)\<close>. Only an array
  has a \<open>map\<close> to call, so for any other \<open>data\<close> (\<open>null\<close> before the first success)
  the call throws; and reading \<open>id\<close> and \<open>name\<close> of an item throws when the item is
  \<open>undefined\<close> or \<open>null\<close>. The view keeps the items; what React makes of each
  item's \<open>name\<close> is not modelled.
\<close>

fun nullish :: "js_value \<Rightarrow> bool" where
  "nullish JUndefined = True"
| "nullish JNull = True"
| "nullish (JBool b) = False"
| "nullish (JNumber n) = False"
| "nullish (JString s) = False"
| "nullish (JArray vs) = False"
| "nullish (JObject kvs) = False"
| "nullish (JError m) = False"

fun list_items :: "js_value \<Rightarrow> js_value list option" where
  "list_items (JArray us) = (if list_ex nullish us then None else Some us)"
| "list_items JUndefined = None"
| "list_items JNull = None"
| "list_items (JBool b) = None"
| "list_items (JNumber n) = None"
| "list_items (JString s) = None"
| "list_items (JObject kvs) = None"
| "list_items (JError m) = None"

datatype view =
    LoadingParagraph
  | ErrorParagraph js_value
  | ItemList "js_value list"
  | RenderThrows

definition Users :: "hook \<Rightarrow> view" where
  "Users h =
     (if loading h then LoadingParagraph
      else if truthy (error h) then ErrorParagraph (error h)
      else (case list_items (data h) of None \<Rightarrow> RenderThrows | Some us \<Rightarrow> ItemList us))"

text \<open>
  The state the consumer shows: Pending for the loading paragraph, Failed for the error
  paragraph, Succeeded for the list, and none of them when the render throws.
\<close>

datatype status = Pending | Succeeded | Failed

definition status_of :: "hook \<Rightarrow> status option" where
  "status_of h =
     (case Users h of
        LoadingParagraph \<Rightarrow> Some Pending
      | ErrorParagraph m \<Rightarrow> Some Failed
      | ItemList us \<Rightarrow> Some Succeeded
      | RenderThrows \<Rightarrow> None)"

subsection \<open>Classifying events and whole attempts\<close>

text \<open>
  An event leaves \<open>fetchData\<close> through the \<open>catch\<close> block when a promise rejects or the
  status check throws (line 178); it leaves through the end of the \<open>try\<close> block when the
  decoded body arrives.
\<close>

fun ends_in_catch :: "event \<Rightarrow> bool" where
  "ends_in_catch (FetchSettles i (Rejects e)) = True"
| "ends_in_catch (FetchSettles i (Resolves r)) = (\<not> ok r)"
| "ends_in_catch (JsonSettles i (Rejects e)) = True"
| "ends_in_catch (JsonSettles i (Resolves v)) = False"
| "ends_in_catch Refetch = False"
| "ends_in_catch (Rerender u opts) = False"

fun ends_in_success :: "event \<Rightarrow> bool" where
  "ends_in_success (JsonSettles i (Resolves v)) = True"
| "ends_in_success (JsonSettles i (Rejects e)) = False"
| "ends_in_success (FetchSettles i outcome) = False"
| "ends_in_success Refetch = False"
| "ends_in_success (Rerender u opts) = False"

text \<open>
  The four ways one attempt can go, each with the events that resume it: the request
  rejects; the response is not \<open>ok\<close>; the response is \<open>ok\<close> and the decode rejects; the
  response is \<open>ok\<close> and the body decodes.
\<close>

datatype outcome =
    NetworkError js_value
  | BadStatus response
  | DecodeError response js_value
  | Success response js_value

fun settle :: "nat \<Rightarrow> outcome \<Rightarrow> event list" where
  "settle i (NetworkError e) = [FetchSettles i (Rejects e)]"
| "settle i (BadStatus r) = [FetchSettles i (Resolves r)]"
| "settle i (DecodeError r e) = [FetchSettles i (Resolves r), JsonSettles i (Rejects e)]"
| "settle i (Success r v) = [FetchSettles i (Resolves r), JsonSettles i (Resolves v)]"

fun well_formed :: "outcome \<Rightarrow> bool" where
  "well_formed (NetworkError e) = True"
| "well_formed (BadStatus r) = (\<not> ok r)"
| "well_formed (DecodeError r e) = ok r"
| "well_formed (Success r v) = ok r"

text \<open>
  What an attempt passes to \<open>setData\<close> and to \<open>setError\<close>, if it calls them: \<open>setData\<close>
  is reached only with the decoded body, \<open>setError\<close> only in \<open>catch\<close> and only when
  \<^verbatim>\<open>err.message\<close> can be read.
\<close>

fun written_data :: "outcome \<Rightarrow> js_value option" where
  "written_data (Success r v) = Some v"
| "written_data (NetworkError e) = None"
| "written_data (BadStatus r) = None"
| "written_data (DecodeError r e) = None"

fun written_error :: "outcome \<Rightarrow> js_value option" where
  "written_error (Success r v) = None"
| "written_error (NetworkError e) = get_message e"
| "written_error (BadStatus r) = get_message (JError ''Failed to fetch data'')"
| "written_error (DecodeError r e) = get_message e"

text \<open>
  The same for a single event: what it passes to \<open>setData\<close> and to \<open>setError\<close>.
\<close>

fun event_data :: "event \<Rightarrow> js_value option" where
  "event_data (JsonSettles i (Resolves v)) = Some v"
| "event_data (JsonSettles i (Rejects e)) = None"
| "event_data (FetchSettles i outcome) = None"
| "event_data Refetch = None"
| "event_data (Rerender u opts) = None"

fun event_error :: "event \<Rightarrow> js_value option" where
  "event_error (FetchSettles i (Rejects e)) = get_message e"
| "event_error (FetchSettles i (Resolves r)) =
     (if ok r then None else get_message (JError ''Failed to fetch data''))"
| "event_error (JsonSettles i (Rejects e)) = get_message e"
| "event_error (JsonSettles i (Resolves v)) = None"
| "event_error Refetch = None"
| "event_error (Rerender u opts) = None"



section \<open>Properties\<close>

subsection \<open>Frame lemmas\<close>

lemmas hook_defs = fetchData_def resume_fetch_def resume_json_def catch_finally_def
  set_phase_def phase_of_def

lemma step_data_unchanged:
  "step h ev = Some h' \<Longrightarrow> \<not> ends_in_success ev \<Longrightarrow> data h' = data h"
  by (cases ev) (auto simp: hook_defs split: if_splits settled.splits option.splits)

lemma step_error_unchanged:
  "step h ev = Some h' \<Longrightarrow> \<not> ends_in_catch ev \<Longrightarrow> error h' = error h"
  by (cases ev) (auto simp: hook_defs split: if_splits settled.splits option.splits)

lemma run_data_unchanged:
  "run h evs = Some h' \<Longrightarrow> \<not> list_ex ends_in_success evs \<Longrightarrow> data h' = data h"
proof (induction evs arbitrary: h)
  case Nil
  then show ?case by simp
next
  case (Cons ev evs)
  then obtain h1 where s: "step h ev = Some h1" and r: "run h1 evs = Some h'"
    by (auto split: option.splits)
  from Cons.prems have "\<not> ends_in_success ev" "\<not> list_ex ends_in_success evs" by simp_all
  with Cons.IH[OF r] step_data_unchanged[OF s] show ?case by simp
qed

lemma run_error_unchanged:
  "run h evs = Some h' \<Longrightarrow> \<not> list_ex ends_in_catch evs \<Longrightarrow> error h' = error h"
proof (induction evs arbitrary: h)
  case Nil
  then show ?case by simp
next
  case (Cons ev evs)
  then obtain h1 where s: "step h ev = Some h1" and r: "run h1 evs = Some h'"
    by (auto split: option.splits)
  from Cons.prems have "\<not> ends_in_catch ev" "\<not> list_ex ends_in_catch evs" by simp_all
  with Cons.IH[OF r] step_error_unchanged[OF s] show ?case by simp
qed


lemma map_fst_update: "map fst (xs[i := (fst (xs ! i), p)]) = map fst xs"
  by (induction xs arbitrary: i) (auto split: nat.splits)




lemma run_append:
  "run h (xs @ ys) = (case run h xs of None \<Rightarrow> None | Some h' \<Rightarrow> run h' ys)"
  by (induction xs arbitrary: h) (auto split: option.splits)

lemma Users_settled:
  "\<not> loading h \<Longrightarrow>
   Users h = (if truthy (error h) then ErrorParagraph (error h)
              else (case list_items (data h) of None \<Rightarrow> RenderThrows | Some us \<Rightarrow> ItemList us))"
  by (simp add: Users_def)


lemma status_of_truthy_error: "\<not> loading h \<Longrightarrow> truthy (error h) \<Longrightarrow> status_of h = Some Failed"
  by (simp add: status_of_def Users_def)

subsection \<open>A successful attempt\<close>

text \<open>
  C1, as the code has it. When the decoded body of attempt \<open>i\<close> arrives, \<open>data\<close> becomes
  the decoded payload and \<open>loading\<close> becomes false; \<open>error\<close> is not written and keeps the
  value it had just before. While that value is truthy the consumer goes on showing the
  error paragraph; otherwise it shows the payload's items, or its render throws when the
  payload is not a list of items. When the state was reached from mounting without any
  attempt going through \<open>catch\<close>, \<open>error\<close> is \<open>null\<close>.
\<close>

theorem success_sets_data_keeps_error:
  assumes "phase_of h i = Some AwaitJson"
  shows "\<exists>h'. step h (JsonSettles i (Resolves v)) = Some h' \<and>
           observe h' = (v, False, error h) \<and> phase_of h' i = Some Fulfilled \<and>
           Users h' =
             (if truthy (error h) then ErrorParagraph (error h)
              else (case list_items v of None \<Rightarrow> RenderThrows | Some us \<Rightarrow> ItemList us)) \<and>
           (run (mount u opts) evs = Some h \<and> \<not> list_ex ends_in_catch evs \<longrightarrow>
              observe h' = (v, False, JNull) \<and>
              status_of h' = (case list_items v of None \<Rightarrow> None | Some us \<Rightarrow> Some Succeeded))"
proof -
  let ?h' = "resume_json i (Resolves v) h"
  have s: "step h (JsonSettles i (Resolves v)) = Some ?h'"
    using assms by simp
  have o: "observe ?h' = (v, False, error h)"
    by (simp add: observe_def resume_json_def set_phase_def)
  have p: "phase_of ?h' i = Some Fulfilled"
    using assms by (simp add: hook_defs split: if_splits)
  from o have f: "\<not> loading ?h'" "data ?h' = v" "error ?h' = error h"
    by (simp_all add: observe_def)
  from Users_settled[OF f(1)]
  have w: "Users ?h' =
             (if truthy (error h) then ErrorParagraph (error h)
              else (case list_items v of None \<Rightarrow> RenderThrows | Some us \<Rightarrow> ItemList us))"
    unfolding f(2,3) .
  have n: "observe ?h' = (v, False, JNull) \<and>
           status_of ?h' = (case list_items v of None \<Rightarrow> None | Some us \<Rightarrow> Some Succeeded)"
    if r: "run (mount u opts) evs = Some h" and c: "\<not> list_ex ends_in_catch evs"
  proof -
    have "error (mount u opts) = JNull"
      by (simp add: mount_def useState_initial_def fetchData_def)
    with run_error_unchanged[OF r c] have e: "error h = JNull"
      by simp
    with o w show ?thesis
      by (simp add: status_of_def split: option.splits)
  qed
  from s o p w n show ?thesis
    by blast
qed

theorem success_sets_data_keeps_error_witness:
  "phase_of
     (resume_fetch 1 (Resolves \<lparr>ok = True, status = 200, statusText = ''OK''\<rparr>)
        (fetchData
           (resume_fetch 0
              (Resolves \<lparr>ok = False, status = 500, statusText = ''Server Error''\<rparr>)
              (mount ''/posts'' [])))) 1 = Some AwaitJson \<and>
   map_option observe
     (step
        (resume_fetch 1 (Resolves \<lparr>ok = True, status = 200, statusText = ''OK''\<rparr>)
           (fetchData
              (resume_fetch 0
                 (Resolves \<lparr>ok = False, status = 500, statusText = ''Server Error''\<rparr>)
                 (mount ''/posts'' []))))
        (JsonSettles 1 (Resolves (JArray [JNumber 7]))))
     = Some (JArray [JNumber 7], False, JString ''Failed to fetch data'') \<and>
   phase_of
     (resume_fetch 0 (Resolves \<lparr>ok = True, status = 200, statusText = ''OK''\<rparr>)
        (mount ''/posts'' [])) 0 = Some AwaitJson \<and>
   run (mount ''/posts'' [])
     [FetchSettles 0 (Resolves \<lparr>ok = True, status = 200, statusText = ''OK''\<rparr>)]
     = Some (resume_fetch 0 (Resolves \<lparr>ok = True, status = 200, statusText = ''OK''\<rparr>)
               (mount ''/posts'' [])) \<and>
   \<not> list_ex ends_in_catch
       [FetchSettles 0 (Resolves \<lparr>ok = True, status = 200, statusText = ''OK''\<rparr>)] \<and>
   map_option observe
     (step
        (resume_fetch 0 (Resolves \<lparr>ok = True, status = 200, statusText = ''OK''\<rparr>)
           (mount ''/posts'' []))
        (JsonSettles 0 (Resolves (JArray [JNumber 7]))))
     = Some (JArray [JNumber 7], False, JNull) \<and>
   map_option status_of
     (step
        (resume_fetch 0 (Resolves \<lparr>ok = True, status = 200, statusText = ''OK''\<rparr>)
           (mount ''/posts'' []))
        (JsonSettles 0 (Resolves (JArray [JNumber 7]))))
     = Some (Some Succeeded)"
proof -
  let ?ok = "\<lparr>ok = True, status = 200, statusText = ''OK''\<rparr>"
  let ?v = "JArray [JNumber 7]"
  let ?h = "resume_fetch 1 (Resolves ?ok)
        (fetchData
           (resume_fetch 0
              (Resolves \<lparr>ok = False, status = 500, statusText = ''Server Error''\<rparr>)
              (mount ''/posts'' [])))"
  let ?g = "resume_fetch 0 (Resolves ?ok) (mount ''/posts'' [])"
  have p: "phase_of ?h 1 = Some AwaitJson"
    by (simp add: hook_defs mount_def useState_initial_def)
  have e: "error ?h = JString ''Failed to fetch data''"
    by (simp add: hook_defs mount_def useState_initial_def)
  from success_sets_data_keeps_error
         [OF p, where v = ?v and u = "''/posts''" and opts = "[]" and evs = "[]"]
  have 1: "map_option observe (step ?h (JsonSettles 1 (Resolves ?v)))
             = Some (?v, False, JString ''Failed to fetch data'')"
    unfolding e by (elim exE conjE) simp
  have q: "phase_of ?g 0 = Some AwaitJson"
    by (simp add: hook_defs mount_def useState_initial_def)
  have r: "run (mount ''/posts'' []) [FetchSettles 0 (Resolves ?ok)] = Some ?g"
    by (simp add: phase_of_def mount_def useState_initial_def fetchData_def)
  have c: "\<not> list_ex ends_in_catch [FetchSettles 0 (Resolves ?ok)]"
    by simp
  have l: "list_items ?v = Some [JNumber 7]"
    by simp
  from success_sets_data_keeps_error
         [OF q, where v = ?v and u = "''/posts''" and opts = "[]"
            and evs = "[FetchSettles 0 (Resolves ?ok)]"] r c
  obtain h' where t: "step ?g (JsonSettles 0 (Resolves ?v)) = Some h'"
    and o: "observe h' = (?v, False, JNull)"
    and st: "status_of h' = (case list_items ?v of None \<Rightarrow> None | Some us \<Rightarrow> Some Succeeded)"
    by blast
  have 2: "map_option observe (step ?g (JsonSettles 0 (Resolves ?v))) = Some (?v, False, JNull)"
    unfolding t using o by simp
  have 3: "map_option status_of (step ?g (JsonSettles 0 (Resolves ?v))) = Some (Some Succeeded)"
    unfolding t using st unfolding l by simp
  from p 1 q r c 2 3 show ?thesis
    by (intro conjI)
qed

text \<open>
  The claim as written fails when the successful attempt follows a failed one: the
  first attempt gets status 500, the consumer calls \<open>refetch\<close>, the second attempt
  succeeds; \<open>error\<close> still holds the first attempt's message, and the consumer still
  shows the error paragraph.
\<close>

theorem success_after_failure_keeps_error:
  "map_option observe
     (run (mount ''https://jsonplaceholder.typicode.com/posts'' [])
        [FetchSettles 0
           (Resolves \<lparr>ok = False, status = 500, statusText = ''Internal Server Error''\<rparr>),
         Refetch,
         FetchSettles 1 (Resolves \<lparr>ok = True, status = 200, statusText = ''OK''\<rparr>),
         JsonSettles 1
           (Resolves (JArray [JObject [(''id'', JNumber 1), (''title'', JString ''a'')]]))])
     = Some (JArray [JObject [(''id'', JNumber 1), (''title'', JString ''a'')]], False,
             JString ''Failed to fetch data'') \<and>
   map_option status_of
     (run (mount ''https://jsonplaceholder.typicode.com/posts'' [])
        [FetchSettles 0
           (Resolves \<lparr>ok = False, status = 500, statusText = ''Internal Server Error''\<rparr>),
         Refetch,
         FetchSettles 1 (Resolves \<lparr>ok = True, status = 200, statusText = ''OK''\<rparr>),
         JsonSettles 1
           (Resolves (JArray [JObject [(''id'', JNumber 1), (''title'', JString ''a'')]]))])
     = Some (Some Failed)"
  by (simp add: mount_def useState_initial_def hook_defs observe_def status_of_def Users_def)

subsection \<open>\<open>data\<close> and \<open>error\<close> together\<close>

text \<open>
  C2, as the code has it. Nothing ever resets \<open>data\<close> or \<open>error\<close>. In a state reached
  from mounting, \<open>data\<close> is populated only if the body of some attempt has decoded, and
  \<open>error\<close> only if some attempt has gone through \<open>catch\<close>; so at most one of them is
  populated as long as the completed attempts did not include both a success and a
  failure.
\<close>

theorem populated_only_by_completions:
  assumes "run (mount u opts) evs = Some h"
  shows "(\<not> list_ex ends_in_success evs \<longrightarrow> data h = JNull) \<and>
         (\<not> list_ex ends_in_catch evs \<longrightarrow> error h = JNull) \<and>
         (\<not> (list_ex ends_in_success evs \<and> list_ex ends_in_catch evs) \<longrightarrow>
            data h = JNull \<or> error h = JNull)"
proof -
  have d: "data (mount u opts) = JNull" and e: "error (mount u opts) = JNull"
    by (simp_all add: mount_def useState_initial_def fetchData_def)
  from run_data_unchanged[OF assms] d
  have 1: "\<not> list_ex ends_in_success evs \<longrightarrow> data h = JNull"
    by simp
  from run_error_unchanged[OF assms] e
  have 2: "\<not> list_ex ends_in_catch evs \<longrightarrow> error h = JNull"
    by simp
  from 1 2 show ?thesis by blast
qed

theorem populated_only_by_completions_witness:
  "run (mount ''/users'' [])
     [FetchSettles 0 (Resolves \<lparr>ok = False, status = 404, statusText = ''Not Found''\<rparr>),
      Refetch]
     = Some (fetchData
               (resume_fetch 0
                  (Resolves \<lparr>ok = False, status = 404, statusText = ''Not Found''\<rparr>)
                  (mount ''/users'' []))) \<and>
   \<not> list_ex ends_in_success
       [FetchSettles 0 (Resolves \<lparr>ok = False, status = 404, statusText = ''Not Found''\<rparr>),
        Refetch] \<and>
   data (fetchData
           (resume_fetch 0
              (Resolves \<lparr>ok = False, status = 404, statusText = ''Not Found''\<rparr>)
              (mount ''/users'' []))) = JNull \<and>
   run (mount ''/users'' [])
     [FetchSettles 0 (Resolves \<lparr>ok = True, status = 200, statusText = ''OK''\<rparr>),
      JsonSettles 0 (Resolves (JArray []))]
     = Some (resume_json 0 (Resolves (JArray []))
               (resume_fetch 0 (Resolves \<lparr>ok = True, status = 200, statusText = ''OK''\<rparr>)
                  (mount ''/users'' []))) \<and>
   \<not> list_ex ends_in_catch
       [FetchSettles 0 (Resolves \<lparr>ok = True, status = 200, statusText = ''OK''\<rparr>),
        JsonSettles 0 (Resolves (JArray []))] \<and>
   error (resume_json 0 (Resolves (JArray []))
            (resume_fetch 0 (Resolves \<lparr>ok = True, status = 200, statusText = ''OK''\<rparr>)
               (mount ''/users'' []))) = JNull"
proof -
  have r: "run (mount ''/users'' [])
     [FetchSettles 0 (Resolves \<lparr>ok = False, status = 404, statusText = ''Not Found''\<rparr>),
      Refetch]
     = Some (fetchData
               (resume_fetch 0
                  (Resolves \<lparr>ok = False, status = 404, statusText = ''Not Found''\<rparr>)
                  (mount ''/users'' [])))"
    by (simp add: phase_of_def mount_def useState_initial_def fetchData_def)
  have n: "\<not> list_ex ends_in_success
       [FetchSettles 0 (Resolves \<lparr>ok = False, status = 404, statusText = ''Not Found''\<rparr>),
        Refetch]"
    by simp
  from populated_only_by_completions[OF r] n
  have 1: "data (fetchData
           (resume_fetch 0
              (Resolves \<lparr>ok = False, status = 404, statusText = ''Not Found''\<rparr>)
              (mount ''/users'' []))) = JNull"
    by blast
  have r2: "run (mount ''/users'' [])
     [FetchSettles 0 (Resolves \<lparr>ok = True, status = 200, statusText = ''OK''\<rparr>),
      JsonSettles 0 (Resolves (JArray []))]
     = Some (resume_json 0 (Resolves (JArray []))
               (resume_fetch 0 (Resolves \<lparr>ok = True, status = 200, statusText = ''OK''\<rparr>)
                  (mount ''/users'' [])))"
    by (simp add: phase_of_def mount_def useState_initial_def fetchData_def
          resume_fetch_def set_phase_def)
  have n2: "\<not> list_ex ends_in_catch
       [FetchSettles 0 (Resolves \<lparr>ok = True, status = 200, statusText = ''OK''\<rparr>),
        JsonSettles 0 (Resolves (JArray []))]"
    by simp
  from populated_only_by_completions[OF r2] n2
  have 2: "error (resume_json 0 (Resolves (JArray []))
            (resume_fetch 0 (Resolves \<lparr>ok = True, status = 200, statusText = ''OK''\<rparr>)
               (mount ''/users'' []))) = JNull"
    by blast
  from r n 1 r2 n2 2 show ?thesis by (intro conjI)
qed

text \<open>
  The claim as written fails: a successful attempt, then a \<open>refetch\<close> whose request
  rejects, leave both the payload in \<open>data\<close> and the message in \<open>error\<close>.
\<close>

theorem data_and_error_both_populated:
  "map_option observe
     (run (mount ''https://jsonplaceholder.typicode.com/users'' [])
        [FetchSettles 0 (Resolves \<lparr>ok = True, status = 200, statusText = ''OK''\<rparr>),
         JsonSettles 0
           (Resolves (JArray [JObject [(''id'', JNumber 1), (''name'', JString ''Ann'')]])),
         Refetch,
         FetchSettles 1 (Rejects (JError ''Failed to fetch''))])
   = Some (JArray [JObject [(''id'', JNumber 1), (''name'', JString ''Ann'')]], False,
           JString ''Failed to fetch'')"
  by (simp add: mount_def useState_initial_def hook_defs observe_def)

subsection \<open>A response that is not \<open>ok\<close>\<close>

text \<open>
  C3. When the request of attempt \<open>i\<close> resolves with a response whose \<open>ok\<close> is false,
  the attempt finishes at once: \<open>error\<close> is exactly \<open>Failed to fetch data\<close>, \<open>loading\<close>
  is false and the consumer reads Failed (it shows the error paragraph). The status code and the status text have no
  part in it: the same response with any other code \<open>c\<close> and text \<open>t\<close> gives the same
  state.
\<close>

theorem not_ok_gives_fixed_message:
  assumes "phase_of h i = Some AwaitFetch" and "\<not> ok r"
  shows "\<exists>h'. step h (FetchSettles i (Resolves r)) = Some h' \<and>
           error h' = JString ''Failed to fetch data'' \<and> \<not> loading h' \<and>
           status_of h' = Some Failed \<and> phase_of h' i = Some Fulfilled \<and>
           step h (FetchSettles i (Resolves (r\<lparr>status := c, statusText := t\<rparr>))) = Some h'"
  using assms by (auto simp: hook_defs status_of_def Users_def split: if_splits)

theorem not_ok_gives_fixed_message_witness:
  "phase_of (mount ''/posts'' []) 0 = Some AwaitFetch \<and>
   \<not> ok \<lparr>ok = False, status = 503, statusText = ''Service Unavailable''\<rparr> \<and>
   map_option error
     (step (mount ''/posts'' [])
        (FetchSettles 0
           (Resolves \<lparr>ok = False, status = 503, statusText = ''Service Unavailable''\<rparr>)))
     = Some (JString ''Failed to fetch data'') \<and>
   step (mount ''/posts'' [])
     (FetchSettles 0
        (Resolves \<lparr>ok = False, status = 503, statusText = ''Service Unavailable''\<rparr>))
   = step (mount ''/posts'' [])
       (FetchSettles 0
          (Resolves (\<lparr>ok = False, status = 503, statusText = ''Service Unavailable''\<rparr>
             \<lparr>status := 404, statusText := ''Not Found''\<rparr>)))"
proof -
  have p: "phase_of (mount ''/posts'' []) 0 = Some AwaitFetch"
    by (simp add: phase_of_def mount_def useState_initial_def fetchData_def)
  have k: "\<not> ok \<lparr>ok = False, status = 503, statusText = ''Service Unavailable''\<rparr>"
    by simp
  from not_ok_gives_fixed_message[OF p k, where c = 404 and t = "''Not Found''"]
  show ?thesis using p k by auto
qed

subsection \<open>Exceptions\<close>

text \<open>
  C4, as the code has it. A value thrown by the request or by the decode, or the
  \<open>Error\<close> thrown by the status check, is caught: when its \<open>message\<close> property can be
  read (the thrown value is neither \<open>null\<close> nor \<open>undefined\<close>), the attempt returns
  normally with \<open>loading\<close> false, \<open>data\<close> untouched and \<open>error\<close> set to whatever the
  property read gave. For an \<open>Error\<close> that is its message text, verbatim; for a thrown
  value without a \<open>message\<close> it is \<open>undefined\<close>. No generic message is substituted.
\<close>

theorem caught_exception_sets_its_message:
  assumes "get_message e = Some m"
  shows "(phase_of h i = Some AwaitFetch \<longrightarrow>
           (\<exists>h'. step h (FetchSettles i (Rejects e)) = Some h' \<and>
                 observe h' = (data h, False, m) \<and> phase_of h' i = Some Fulfilled)) \<and>
         (phase_of h i = Some AwaitJson \<longrightarrow>
           (\<exists>h'. step h (JsonSettles i (Rejects e)) = Some h' \<and>
                 observe h' = (data h, False, m) \<and> phase_of h' i = Some Fulfilled)) \<and>
         (phase_of h i = Some AwaitFetch \<and> \<not> ok r \<longrightarrow>
           (\<exists>h'. step h (FetchSettles i (Resolves r)) = Some h' \<and>
                 observe h' = (data h, False, JString ''Failed to fetch data'') \<and>
                 phase_of h' i = Some Fulfilled)) \<and>
         (e = JError s \<longrightarrow> m = JString s) \<and>
         (map_of kvs ''message'' = None \<and> e = JObject kvs \<longrightarrow> m = JUndefined)"
  using assms by (auto simp: hook_defs observe_def split: if_splits)

theorem caught_exception_sets_its_message_witness:
  "get_message (JError ''Unexpected token < in JSON at position 0'')
     = Some (JString ''Unexpected token < in JSON at position 0'') \<and>
   phase_of (mount ''/posts'' []) 0 = Some AwaitFetch \<and>
   map_option observe
     (step (mount ''/posts'' [])
        (FetchSettles 0 (Rejects (JError ''Unexpected token < in JSON at position 0''))))
     = Some (JNull, False, JString ''Unexpected token < in JSON at position 0'') \<and>
   phase_of
     (resume_fetch 0 (Resolves \<lparr>ok = True, status = 200, statusText = ''OK''\<rparr>)
        (mount ''/posts'' [])) 0 = Some AwaitJson \<and>
   map_option observe
     (step
        (resume_fetch 0 (Resolves \<lparr>ok = True, status = 200, statusText = ''OK''\<rparr>)
           (mount ''/posts'' []))
        (JsonSettles 0 (Rejects (JError ''Unexpected token < in JSON at position 0''))))
     = Some (JNull, False, JString ''Unexpected token < in JSON at position 0'') \<and>
   \<not> ok \<lparr>ok = False, status = 401, statusText = ''Unauthorized''\<rparr> \<and>
   map_option observe
     (step (mount ''/posts'' [])
        (FetchSettles 0
           (Resolves \<lparr>ok = False, status = 401, statusText = ''Unauthorized''\<rparr>)))
     = Some (JNull, False, JString ''Failed to fetch data'')"
proof -
  let ?e = "JError ''Unexpected token < in JSON at position 0''"
  let ?h2 = "resume_fetch 0 (Resolves \<lparr>ok = True, status = 200, statusText = ''OK''\<rparr>)
        (mount ''/posts'' [])"
  have g: "get_message ?e = Some (JString ''Unexpected token < in JSON at position 0'')"
    by simp
  have p1: "phase_of (mount ''/posts'' []) 0 = Some AwaitFetch"
    by (simp add: phase_of_def mount_def useState_initial_def fetchData_def)
  have p2: "phase_of ?h2 0 = Some AwaitJson"
    by (simp add: hook_defs mount_def useState_initial_def)
  have d1: "data (mount ''/posts'' []) = JNull"
    by (simp add: mount_def useState_initial_def fetchData_def)
  have d2: "data ?h2 = JNull"
    by (simp add: hook_defs mount_def useState_initial_def)
  note a = caught_exception_sets_its_message
             [OF g, where h = "mount ''/posts'' []" and i = 0, THEN conjunct1, rule_format, OF p1]
  note b = caught_exception_sets_its_message
             [OF g, where h = ?h2 and i = 0, THEN conjunct2, THEN conjunct1, rule_format, OF p2]
  from a have a': "map_option observe (step (mount ''/posts'' []) (FetchSettles 0 (Rejects ?e)))
     = Some (JNull, False, JString ''Unexpected token < in JSON at position 0'')"
    unfolding d1 by (elim exE conjE) simp
  from b have b': "map_option observe (step ?h2 (JsonSettles 0 (Rejects ?e)))
     = Some (JNull, False, JString ''Unexpected token < in JSON at position 0'')"
    unfolding d2 by (elim exE conjE) simp
  have k: "\<not> ok \<lparr>ok = False, status = 401, statusText = ''Unauthorized''\<rparr>"
    by simp
  note c = caught_exception_sets_its_message
             [OF g, where h = "mount ''/posts'' []" and i = 0
                and r = "\<lparr>ok = False, status = 401, statusText = ''Unauthorized''\<rparr>",
              THEN conjunct2, THEN conjunct2, THEN conjunct1, rule_format, OF conjI, OF p1 k]
  from c have c': "map_option observe
     (step (mount ''/posts'' [])
        (FetchSettles 0
           (Resolves \<lparr>ok = False, status = 401, statusText = ''Unauthorized''\<rparr>)))
     = Some (JNull, False, JString ''Failed to fetch data'')"
    unfolding d1 by (elim exE conjE) simp
  from g p1 a' p2 b' k c' show ?thesis by (intro conjI)
qed

text \<open>
  The claim as written fails where it promises a generic message. A request aborted
  with a string as the reason (\<^verbatim>\<open>controller.abort("timeout")\<close>, the signal passed in
  \<open>options\<close>) rejects with that string; \<^verbatim>\<open>err.message\<close> is \<open>undefined\<close>, and that is
  what \<open>error\<close> becomes. The consumer's \<^verbatim>\<open>if (error)\<close> then does not see a failure,
  and with \<open>data\<close> still \<open>null\<close> its render throws.
\<close>

theorem thrown_string_leaves_error_undefined:
  "map_option observe
     (run (mount ''https://jsonplaceholder.typicode.com/posts'' [])
        [FetchSettles 0 (Rejects (JString ''timeout''))])
     = Some (JNull, False, JUndefined) \<and>
   map_option status_of
     (run (mount ''https://jsonplaceholder.typicode.com/posts'' [])
        [FetchSettles 0 (Rejects (JString ''timeout''))])
     = Some None"
  by (simp add: mount_def useState_initial_def hook_defs observe_def status_of_def Users_def)

subsection \<open>The end of an attempt\<close>

text \<open>
  C5, as the code has it. Whatever event finishes attempt \<open>i\<close> (its promise fulfilled,
  or rejected from inside \<open>catch\<close>), \<open>loading\<close> is false in the state it leaves, so
  the consumer does not read Pending. The event is the arrival of the decoded body or an
  entry into \<open>catch\<close>, and it records exactly that: the body goes to \<open>data\<close>, a
  readable \<open>err.message\<close> goes to \<open>error\<close>, and the other field keeps its value. The
  consumer then reads Failed when \<open>error\<close> is truthy, Succeeded when \<open>error\<close> is falsy
  and \<open>data\<close> is a list of items, and neither otherwise. And an attempt does finish:
  suspended at the first \<open>await\<close>, any outcome of the request finishes it or moves it to
  the second \<open>await\<close>; suspended there, any outcome of the decode finishes it.
\<close>

theorem completion_clears_loading:
  "(step h ev = Some h' \<and>
      (phase_of h i = Some AwaitFetch \<or> phase_of h i = Some AwaitJson) \<and>
      (phase_of h' i = Some Fulfilled \<or> phase_of h' i = Some Rejected)
      \<longrightarrow> \<not> loading h' \<and> status_of h' \<noteq> Some Pending \<and>
          (ends_in_success ev \<or> ends_in_catch ev) \<and>
          data h' = (case event_data ev of Some v \<Rightarrow> v | None \<Rightarrow> data h) \<and>
          error h' = (case event_error ev of Some m \<Rightarrow> m | None \<Rightarrow> error h) \<and>
          status_of h' =
            (if truthy (error h') then Some Failed
             else (case list_items (data h') of None \<Rightarrow> None | Some us \<Rightarrow> Some Succeeded))) \<and>
   (phase_of h i = Some AwaitFetch \<longrightarrow>
      (\<exists>h1. step h (FetchSettles i fo) = Some h1 \<and>
         (phase_of h1 i = Some AwaitJson \<or> phase_of h1 i = Some Fulfilled \<or>
          phase_of h1 i = Some Rejected))) \<and>
   (phase_of h i = Some AwaitJson \<longrightarrow>
      (\<exists>h1. step h (JsonSettles i jo) = Some h1 \<and>
         (phase_of h1 i = Some Fulfilled \<or> phase_of h1 i = Some Rejected)))"
proof (intro conjI impI)
  assume a: "step h ev = Some h' \<and>
      (phase_of h i = Some AwaitFetch \<or> phase_of h i = Some AwaitJson) \<and>
      (phase_of h' i = Some Fulfilled \<or> phase_of h' i = Some Rejected)"
  then show l: "\<not> loading h'"
    by (cases ev)
       (auto simp: hook_defs nth_append nth_list_update
             split: if_splits settled.splits option.splits)
  from l show "status_of h' \<noteq> Some Pending"
    by (simp add: status_of_def Users_def split: option.splits)
  from a show "ends_in_success ev \<or> ends_in_catch ev"
    by (cases ev)
       (auto simp: hook_defs nth_append nth_list_update
             split: if_splits settled.splits option.splits)
  from a show "data h' = (case event_data ev of Some v \<Rightarrow> v | None \<Rightarrow> data h)"
    by (cases ev)
       (auto simp: hook_defs split: if_splits settled.splits option.splits)
  from a show "error h' = (case event_error ev of Some m \<Rightarrow> m | None \<Rightarrow> error h)"
    by (cases ev)
       (auto simp: hook_defs split: if_splits settled.splits option.splits)
  from l show "status_of h' =
            (if truthy (error h') then Some Failed
             else (case list_items (data h') of None \<Rightarrow> None | Some us \<Rightarrow> Some Succeeded))"
    by (simp add: status_of_def Users_def split: option.splits)
next
  assume "phase_of h i = Some AwaitFetch"
  then show "\<exists>h1. step h (FetchSettles i fo) = Some h1 \<and>
         (phase_of h1 i = Some AwaitJson \<or> phase_of h1 i = Some Fulfilled \<or>
          phase_of h1 i = Some Rejected)"
    by (auto simp: hook_defs split: if_splits settled.splits option.splits)
next
  assume "phase_of h i = Some AwaitJson"
  then show "\<exists>h1. step h (JsonSettles i jo) = Some h1 \<and>
         (phase_of h1 i = Some Fulfilled \<or> phase_of h1 i = Some Rejected)"
    by (auto simp: hook_defs split: if_splits settled.splits option.splits)
qed

theorem completion_clears_loading_witness:
  "step (mount ''/users'' []) (FetchSettles 0 (Rejects (JError ''Failed to fetch'')))
     = Some (resume_fetch 0 (Rejects (JError ''Failed to fetch'')) (mount ''/users'' [])) \<and>
   phase_of (mount ''/users'' []) 0 = Some AwaitFetch \<and>
   phase_of (resume_fetch 0 (Rejects (JError ''Failed to fetch'')) (mount ''/users'' [])) 0
     = Some Fulfilled \<and>
   observe (resume_fetch 0 (Rejects (JError ''Failed to fetch'')) (mount ''/users'' []))
     = (JNull, False, JString ''Failed to fetch'') \<and>
   status_of (resume_fetch 0 (Rejects (JError ''Failed to fetch'')) (mount ''/users'' []))
     = Some Failed \<and>
   phase_of
     (resume_fetch 0 (Resolves \<lparr>ok = True, status = 200, statusText = ''OK''\<rparr>)
        (mount ''/users'' [])) 0 = Some AwaitJson \<and>
   map_option loading
     (step
        (resume_fetch 0 (Resolves \<lparr>ok = True, status = 200, statusText = ''OK''\<rparr>)
           (mount ''/users'' []))
        (JsonSettles 0 (Resolves (JArray [])))) = Some False \<and>
   map_option status_of
     (step
        (resume_fetch 0 (Resolves \<lparr>ok = True, status = 200, statusText = ''OK''\<rparr>)
           (mount ''/users'' []))
        (JsonSettles 0 (Resolves (JArray [])))) = Some (Some Succeeded)"
proof -
  let ?e = "JError ''Failed to fetch''"
  let ?m = "mount ''/users'' []"
  let ?h' = "resume_fetch 0 (Rejects ?e) ?m"
  let ?h2 = "resume_fetch 0 (Resolves \<lparr>ok = True, status = 200, statusText = ''OK''\<rparr>) ?m"
  let ?h3 = "resume_json 0 (Resolves (JArray [])) ?h2"
  have p: "phase_of ?m 0 = Some AwaitFetch"
    by (simp add: phase_of_def mount_def useState_initial_def fetchData_def)
  have s: "step ?m (FetchSettles 0 (Rejects ?e)) = Some ?h'"
    using p by simp
  have q: "phase_of ?h' 0 = Some Fulfilled"
    by (simp add: hook_defs mount_def useState_initial_def)
  have d0: "data ?m = JNull"
    by (simp add: mount_def useState_initial_def fetchData_def)
  note t = completion_clears_loading
             [where h = ?m and ev = "FetchSettles 0 (Rejects ?e)" and h' = ?h' and i = 0,
              THEN conjunct1, rule_format, OF conjI, OF s, OF conjI, OF disjI1 disjI1, OF p q]
  from t have o: "observe ?h' = (JNull, False, JString ''Failed to fetch'')"
    unfolding observe_def d0 by simp
  from t have st: "status_of ?h' = Some Failed"
    unfolding d0 by simp
  have p2: "phase_of ?h2 0 = Some AwaitJson"
    by (simp add: hook_defs mount_def useState_initial_def)
  have s2: "step ?h2 (JsonSettles 0 (Resolves (JArray []))) = Some ?h3"
    using p2 by simp
  have q2: "phase_of ?h3 0 = Some Fulfilled"
    by (simp add: hook_defs mount_def useState_initial_def)
  have e2: "error ?h2 = JNull"
    by (simp add: hook_defs mount_def useState_initial_def)
  note t2 = completion_clears_loading
             [where h = ?h2 and ev = "JsonSettles 0 (Resolves (JArray []))" and h' = ?h3
                and i = 0,
              THEN conjunct1, rule_format, OF conjI, OF s2, OF conjI, OF disjI2 disjI1, OF p2 q2]
  from t2 have l3: "map_option loading (step ?h2 (JsonSettles 0 (Resolves (JArray []))))
                      = Some False"
    unfolding s2 by simp
  from t2 have st3: "map_option status_of (step ?h2 (JsonSettles 0 (Resolves (JArray []))))
                      = Some (Some Succeeded)"
    unfolding s2 e2 by simp
  from s p q o st p2 l3 st3 show ?thesis
    by (intro conjI)
qed

text \<open>
  The claim as written fails where it promises one of the two outcomes. A first request
  aborted with a plain object as the reason rejects with that object; its \<open>message\<close>
  is \<open>undefined\<close>, so after the attempt \<open>error\<close> is falsy and \<open>data\<close> is still
  \<open>null\<close>: the consumer shows neither the error nor a list, its render throws.
\<close>

theorem completion_can_leave_neither_outcome:
  "map_option observe
     (run (mount ''https://jsonplaceholder.typicode.com/users'' [])
        [FetchSettles 0 (Rejects (JObject [(''code'', JNumber 20)]))])
     = Some (JNull, False, JUndefined) \<and>
   map_option Users
     (run (mount ''https://jsonplaceholder.typicode.com/users'' [])
        [FetchSettles 0 (Rejects (JObject [(''code'', JNumber 20)]))])
     = Some RenderThrows \<and>
   map_option status_of
     (run (mount ''https://jsonplaceholder.typicode.com/users'' [])
        [FetchSettles 0 (Rejects (JObject [(''code'', JNumber 20)]))])
     = Some None"
  by (simp add: mount_def useState_initial_def hook_defs observe_def status_of_def Users_def)

subsection \<open>Re-triggering\<close>




text \<open>
  C9. From any state, a \<open>refetch\<close> that succeeds with payload \<open>v\<close> followed by another
  \<open>refetch\<close> that succeeds with the same payload: \<open>data\<close> after the second equals
  \<open>data\<close> after the first (both are \<open>v\<close>), and so does everything else the consumer
  is given. The two responses may differ in status code and text.
\<close>

theorem refetch_same_body_same_data:
  assumes "ok r1" and "ok r2" and "n = length (attempts h)"
  shows "\<exists>h1 h2. run h (Refetch # settle n (Success r1 v)) = Some h1 \<and>
           run h1 (Refetch # settle (Suc n) (Success r2 v)) = Some h2 \<and>
           data h1 = v \<and> data h2 = data h1 \<and> observe h2 = observe h1"
  using assms by (auto simp: hook_defs observe_def nth_append)

theorem refetch_same_body_same_data_witness:
  "ok \<lparr>ok = True, status = 200, statusText = ''OK''\<rparr> \<and>
   ok \<lparr>ok = True, status = 203, statusText = ''Non-Authoritative Information''\<rparr> \<and>
   0 = length (attempts (useState_initial ''/posts'' [])) \<and>
   map_option data
     (run (useState_initial ''/posts'' [])
        ((Refetch # settle 0
            (Success \<lparr>ok = True, status = 200, statusText = ''OK''\<rparr>
               (JArray [JNumber 1, JNumber 2]))) @
         (Refetch # settle (Suc 0)
            (Success \<lparr>ok = True, status = 203,
                       statusText = ''Non-Authoritative Information''\<rparr>
               (JArray [JNumber 1, JNumber 2])))))
   = map_option data
       (run (useState_initial ''/posts'' [])
          (Refetch # settle 0
             (Success \<lparr>ok = True, status = 200, statusText = ''OK''\<rparr>
                (JArray [JNumber 1, JNumber 2]))))"
proof -
  let ?r1 = "\<lparr>ok = True, status = 200, statusText = ''OK''\<rparr>"
  let ?r2 = "\<lparr>ok = True, status = 203, statusText = ''Non-Authoritative Information''\<rparr>"
  let ?v = "JArray [JNumber 1, JNumber 2]"
  let ?h = "useState_initial ''/posts'' []"
  have k1: "ok ?r1" and k2: "ok ?r2"
    by simp_all
  have n: "0 = length (attempts ?h)"
    by (simp add: useState_initial_def)
  from refetch_same_body_same_data[OF k1 k2 n, of ?v]
  obtain h1 h2 where a: "run ?h (Refetch # settle 0 (Success ?r1 ?v)) = Some h1"
    and b: "run h1 (Refetch # settle (Suc 0) (Success ?r2 ?v)) = Some h2"
    and c: "data h2 = data h1"
    by blast
  have app: "run ?h ((Refetch # settle 0 (Success ?r1 ?v)) @
                     (Refetch # settle (Suc 0) (Success ?r2 ?v))) = Some h2"
    by (simp only: run_append a b option.case)
  have "map_option data
          (run ?h ((Refetch # settle 0 (Success ?r1 ?v)) @
                   (Refetch # settle (Suc 0) (Success ?r2 ?v))))
        = map_option data (run ?h (Refetch # settle 0 (Success ?r1 ?v)))"
    unfolding app a by (simp add: c)
  with k1 k2 n show ?thesis by (intro conjI)
qed

subsection \<open>The console\<close>

text \<open>
  C7, as the code has it. One attempt, run from its call to its end, never adds three
  lines to the console. It adds the blue line with the \<open>url\<close> and then, when it
  succeeds, the green line with the decoded payload, or, when it goes through \<open>catch\<close>
  and \<open>err.message\<close> can be read, the red line with the message: two lines in either
  case. The green and the red line exclude each other.
\<close>

theorem attempt_logs_two_lines:
  assumes "well_formed out" and "n = length (attempts h)"
  shows "\<exists>h'. run h (Refetch # settle n out) = Some h' \<and>
           length (console h') \<le> length (console h) + 2 \<and>
           (written_data out = Some v \<longrightarrow>
              console h' = console h @ [Blue (''Fetching data from: '' @ url h),
                                        Green ''Data fetched successfully!'' v]) \<and>
           (written_error out = Some m \<longrightarrow>
              console h' = console h @ [Blue (''Fetching data from: '' @ url h),
                                        Red ''Error fetching data:'' m])"
  using assms by (cases out) (auto simp: hook_defs split: option.splits)

theorem attempt_logs_two_lines_witness:
  "well_formed (BadStatus \<lparr>ok = False, status = 404, statusText = ''Not Found''\<rparr>) \<and>
   0 = length (attempts (useState_initial ''/users'' [])) \<and>
   written_error (BadStatus \<lparr>ok = False, status = 404, statusText = ''Not Found''\<rparr>)
     = Some (JString ''Failed to fetch data'') \<and>
   map_option console
     (run (useState_initial ''/users'' [])
        (Refetch # settle 0
           (BadStatus \<lparr>ok = False, status = 404, statusText = ''Not Found''\<rparr>)))
     = Some [Blue ''Fetching data from: /users'',
             Red ''Error fetching data:'' (JString ''Failed to fetch data'')] \<and>
   well_formed (Success \<lparr>ok = True, status = 200, statusText = ''OK''\<rparr> (JArray [])) \<and>
   written_data (Success \<lparr>ok = True, status = 200, statusText = ''OK''\<rparr> (JArray []))
     = Some (JArray []) \<and>
   map_option console
     (run (useState_initial ''/users'' [])
        (Refetch # settle 0
           (Success \<lparr>ok = True, status = 200, statusText = ''OK''\<rparr> (JArray []))))
     = Some [Blue ''Fetching data from: /users'',
             Green ''Data fetched successfully!'' (JArray [])]"
proof -
  let ?out = "BadStatus \<lparr>ok = False, status = 404, statusText = ''Not Found''\<rparr>"
  let ?ok = "Success \<lparr>ok = True, status = 200, statusText = ''OK''\<rparr> (JArray [])"
  let ?h = "useState_initial ''/users'' []"
  have w: "well_formed ?out"
    by simp
  have n: "0 = length (attempts ?h)"
    by (simp add: useState_initial_def)
  have e: "written_error ?out = Some (JString ''Failed to fetch data'')"
    by simp
  have c: "console ?h = []" and u: "url ?h = ''/users''"
    by (simp_all add: useState_initial_def)
  from attempt_logs_two_lines
         [OF w n, where m = "JString ''Failed to fetch data''" and v = JNull] e
  obtain h1 where r1: "run ?h (Refetch # settle 0 ?out) = Some h1"
    and l1: "console h1 = console ?h @ [Blue (''Fetching data from: '' @ url ?h),
                                        Red ''Error fetching data:''
                                          (JString ''Failed to fetch data'')]"
    by blast
  have 1: "map_option console (run ?h (Refetch # settle 0 ?out))
     = Some [Blue ''Fetching data from: /users'',
             Red ''Error fetching data:'' (JString ''Failed to fetch data'')]"
    unfolding r1 using l1 unfolding c u by simp
  have w2: "well_formed ?ok"
    by simp
  have d2: "written_data ?ok = Some (JArray [])"
    by simp
  from attempt_logs_two_lines
         [OF w2 n, where v = "JArray []" and m = JNull] d2
  obtain h2 where r2: "run ?h (Refetch # settle 0 ?ok) = Some h2"
    and l2: "console h2 = console ?h @ [Blue (''Fetching data from: '' @ url ?h),
                                        Green ''Data fetched successfully!'' (JArray [])]"
    by blast
  have 2: "map_option console (run ?h (Refetch # settle 0 ?ok))
     = Some [Blue ''Fetching data from: /users'',
             Green ''Data fetched successfully!'' (JArray [])]"
    unfolding r2 using l2 unfolding c u by simp
  from w n e 1 w2 d2 2 show ?thesis
    by (intro conjI)
qed

text \<open>
  The claim as written fails: a completed attempt never has three lines. Mounted and
  answered with a list, the hook has printed the blue and the green line and no red one.
\<close>

theorem successful_attempt_logs_no_failure_line:
  "map_option console
     (run (mount ''https://jsonplaceholder.typicode.com/posts'' [])
        [FetchSettles 0 (Resolves \<lparr>ok = True, status = 200, statusText = ''OK''\<rparr>),
         JsonSettles 0 (Resolves (JArray [JNumber 1]))])
     = Some [Blue ''Fetching data from: https://jsonplaceholder.typicode.com/posts'',
             Green ''Data fetched successfully!'' (JArray [JNumber 1])] \<and>
   map_option (length \<circ> console)
     (run (mount ''https://jsonplaceholder.typicode.com/posts'' [])
        [FetchSettles 0 (Resolves \<lparr>ok = True, status = 200, statusText = ''OK''\<rparr>),
         JsonSettles 0 (Resolves (JArray [JNumber 1]))])
     = Some 2"
  by (simp add: mount_def useState_initial_def hook_defs)

subsection \<open>Overlapping attempts\<close>

text \<open>
  C8, as the code has it. Two attempts are started one after the other, the second at
  any point before the first completes, and their resumptions interleave in any order;
  call the attempt whose completion is the last event L, whether it is the one started
  first or the one started second, and the other attempt E. Then \<open>loading\<close> is false,
  and of \<open>data\<close> and \<open>error\<close> attempt L decides the one it writes: \<open>data\<close> when it
  succeeded, \<open>error\<close> when it failed with a readable message. The other field holds
  what E wrote to it, if E wrote it, and its old value otherwise. So the final state is
  the one L alone would have produced whenever E wrote no field that L left alone, for
  instance when both succeeded.
\<close>

theorem last_completion_writes_its_field:
  assumes "well_formed ol" and "well_formed oe" and "a = length (attempts h)"
  shows "(evs \<in> shuffles (Refetch # settle (Suc a) oe) (butlast (settle a ol)) \<longrightarrow>
           (\<exists>h'. run h (Refetch # evs @ [last (settle a ol)]) = Some h' \<and>
              \<not> loading h' \<and>
              data h' = (case written_data ol of Some v \<Rightarrow> v
                         | None \<Rightarrow> (case written_data oe of Some v \<Rightarrow> v | None \<Rightarrow> data h)) \<and>
              error h' = (case written_error ol of Some m \<Rightarrow> m
                          | None \<Rightarrow> (case written_error oe of Some m \<Rightarrow> m | None \<Rightarrow> error h)) \<and>
              ((written_data ol = None \<longrightarrow> written_data oe = None) \<and>
               (written_error ol = None \<longrightarrow> written_error oe = None) \<longrightarrow>
                 map_option observe (run h (Refetch # settle a ol)) = Some (observe h')))) \<and>
         (evs \<in> shuffles (settle a oe) (Refetch # butlast (settle (Suc a) ol)) \<longrightarrow>
           (\<exists>h'. run h (Refetch # evs @ [last (settle (Suc a) ol)]) = Some h' \<and>
              \<not> loading h' \<and>
              data h' = (case written_data ol of Some v \<Rightarrow> v
                         | None \<Rightarrow> (case written_data oe of Some v \<Rightarrow> v | None \<Rightarrow> data h)) \<and>
              error h' = (case written_error ol of Some m \<Rightarrow> m
                          | None \<Rightarrow> (case written_error oe of Some m \<Rightarrow> m | None \<Rightarrow> error h)) \<and>
              ((written_data ol = None \<longrightarrow> written_data oe = None) \<and>
               (written_error ol = None \<longrightarrow> written_error oe = None) \<longrightarrow>
                 map_option observe (run h (Refetch # settle a ol)) = Some (observe h'))))"
proof (intro conjI impI)
  assume "evs \<in> shuffles (Refetch # settle (Suc a) oe) (butlast (settle a ol))"
  with assms
  show "\<exists>h'. run h (Refetch # evs @ [last (settle a ol)]) = Some h' \<and>
              \<not> loading h' \<and>
              data h' = (case written_data ol of Some v \<Rightarrow> v
                         | None \<Rightarrow> (case written_data oe of Some v \<Rightarrow> v | None \<Rightarrow> data h)) \<and>
              error h' = (case written_error ol of Some m \<Rightarrow> m
                          | None \<Rightarrow> (case written_error oe of Some m \<Rightarrow> m | None \<Rightarrow> error h)) \<and>
              ((written_data ol = None \<longrightarrow> written_data oe = None) \<and>
               (written_error ol = None \<longrightarrow> written_error oe = None) \<longrightarrow>
                 map_option observe (run h (Refetch # settle a ol)) = Some (observe h'))"
    by (cases ol; cases oe)
       (auto simp: hook_defs observe_def nth_append split: option.splits)
next
  assume "evs \<in> shuffles (settle a oe) (Refetch # butlast (settle (Suc a) ol))"
  with assms
  show "\<exists>h'. run h (Refetch # evs @ [last (settle (Suc a) ol)]) = Some h' \<and>
              \<not> loading h' \<and>
              data h' = (case written_data ol of Some v \<Rightarrow> v
                         | None \<Rightarrow> (case written_data oe of Some v \<Rightarrow> v | None \<Rightarrow> data h)) \<and>
              error h' = (case written_error ol of Some m \<Rightarrow> m
                          | None \<Rightarrow> (case written_error oe of Some m \<Rightarrow> m | None \<Rightarrow> error h)) \<and>
              ((written_data ol = None \<longrightarrow> written_data oe = None) \<and>
               (written_error ol = None \<longrightarrow> written_error oe = None) \<longrightarrow>
                 map_option observe (run h (Refetch # settle a ol)) = Some (observe h'))"
    by (cases ol; cases oe)
       (auto simp: hook_defs observe_def nth_append split: option.splits)
qed

theorem last_completion_writes_its_field_witness:
  "well_formed (Success \<lparr>ok = True, status = 200, statusText = ''OK''\<rparr> (JArray [JNumber 1])) \<and>
   well_formed (Success \<lparr>ok = True, status = 200, statusText = ''OK''\<rparr> (JArray [JNumber 2])) \<and>
   0 = length (attempts (useState_initial ''/posts'' [])) \<and>
   [FetchSettles 0 (Resolves \<lparr>ok = True, status = 200, statusText = ''OK''\<rparr>),
    Refetch,
    FetchSettles (Suc 0) (Resolves \<lparr>ok = True, status = 200, statusText = ''OK''\<rparr>),
    JsonSettles (Suc 0) (Resolves (JArray [JNumber 2]))]
     \<in> shuffles
         (Refetch # settle (Suc 0)
            (Success \<lparr>ok = True, status = 200, statusText = ''OK''\<rparr> (JArray [JNumber 2])))
         (butlast
            (settle 0
               (Success \<lparr>ok = True, status = 200, statusText = ''OK''\<rparr>
                  (JArray [JNumber 1])))) \<and>
   map_option data
     (run (useState_initial ''/posts'' [])
        (Refetch #
         [FetchSettles 0 (Resolves \<lparr>ok = True, status = 200, statusText = ''OK''\<rparr>),
          Refetch,
          FetchSettles (Suc 0) (Resolves \<lparr>ok = True, status = 200, statusText = ''OK''\<rparr>),
          JsonSettles (Suc 0) (Resolves (JArray [JNumber 2]))] @
         [last (settle 0
                  (Success \<lparr>ok = True, status = 200, statusText = ''OK''\<rparr>
                     (JArray [JNumber 1])))]))
     = Some (JArray [JNumber 1]) \<and>
   map_option observe
     (run (useState_initial ''/posts'' [])
        (Refetch # settle 0
           (Success \<lparr>ok = True, status = 200, statusText = ''OK''\<rparr>
              (JArray [JNumber 1]))))
   = map_option observe
       (run (useState_initial ''/posts'' [])
          (Refetch #
           [FetchSettles 0 (Resolves \<lparr>ok = True, status = 200, statusText = ''OK''\<rparr>),
            Refetch,
            FetchSettles (Suc 0) (Resolves \<lparr>ok = True, status = 200, statusText = ''OK''\<rparr>),
            JsonSettles (Suc 0) (Resolves (JArray [JNumber 2]))] @
           [last (settle 0
                    (Success \<lparr>ok = True, status = 200, statusText = ''OK''\<rparr>
                       (JArray [JNumber 1])))])) \<and>
   well_formed (NetworkError (JError ''Failed to fetch'')) \<and>
   [Refetch,
    FetchSettles (Suc 0) (Resolves \<lparr>ok = True, status = 200, statusText = ''OK''\<rparr>),
    FetchSettles 0 (Rejects (JError ''Failed to fetch''))]
     \<in> shuffles
         (settle 0 (NetworkError (JError ''Failed to fetch'')))
         (Refetch #
          butlast
            (settle (Suc 0)
               (Success \<lparr>ok = True, status = 200, statusText = ''OK''\<rparr>
                  (JArray [JNumber 1])))) \<and>
   map_option observe
     (run (useState_initial ''/posts'' [])
        (Refetch #
         [Refetch,
          FetchSettles (Suc 0) (Resolves \<lparr>ok = True, status = 200, statusText = ''OK''\<rparr>),
          FetchSettles 0 (Rejects (JError ''Failed to fetch''))] @
         [last (settle (Suc 0)
                  (Success \<lparr>ok = True, status = 200, statusText = ''OK''\<rparr>
                     (JArray [JNumber 1])))]))
     = Some (JArray [JNumber 1], False, JString ''Failed to fetch'')"
proof -
  let ?r = "\<lparr>ok = True, status = 200, statusText = ''OK''\<rparr>"
  let ?ol = "Success ?r (JArray [JNumber 1])"
  let ?oe = "Success ?r (JArray [JNumber 2])"
  let ?on = "NetworkError (JError ''Failed to fetch'')"
  let ?h = "useState_initial ''/posts'' []"
  let ?evs = "[FetchSettles 0 (Resolves ?r), Refetch, FetchSettles (Suc 0) (Resolves ?r),
               JsonSettles (Suc 0) (Resolves (JArray [JNumber 2]))]"
  let ?evs2 = "[Refetch, FetchSettles (Suc 0) (Resolves ?r),
                FetchSettles 0 (Rejects (JError ''Failed to fetch''))]"
  have wl: "well_formed ?ol" and we: "well_formed ?oe" and wn: "well_formed ?on"
    by simp_all
  have n: "0 = length (attempts ?h)"
    by (simp add: useState_initial_def)
  have sh: "?evs \<in> shuffles (Refetch # settle (Suc 0) ?oe) (butlast (settle 0 ?ol))"
    by simp
  from last_completion_writes_its_field
         [OF wl we n, where evs = ?evs, THEN conjunct1, rule_format, OF sh]
  obtain h' where r: "run ?h (Refetch # ?evs @ [last (settle 0 ?ol)]) = Some h'"
    and d: "data h' = (case written_data ?ol of Some v \<Rightarrow> v
                       | None \<Rightarrow> (case written_data ?oe of Some v \<Rightarrow> v | None \<Rightarrow> data ?h))"
    and al: "(written_data ?ol = None \<longrightarrow> written_data ?oe = None) \<and>
             (written_error ?ol = None \<longrightarrow> written_error ?oe = None) \<longrightarrow>
             map_option observe (run ?h (Refetch # settle 0 ?ol)) = Some (observe h')"
    by blast
  have 1: "map_option data (run ?h (Refetch # ?evs @ [last (settle 0 ?ol)]))
          = Some (JArray [JNumber 1])"
    unfolding r using d by simp
  have "(written_data ?ol = None \<longrightarrow> written_data ?oe = None) \<and>
        (written_error ?ol = None \<longrightarrow> written_error ?oe = None)"
    by simp
  with al have "map_option observe (run ?h (Refetch # settle 0 ?ol)) = Some (observe h')"
    by (rule mp)
  then have 2: "map_option observe (run ?h (Refetch # settle 0 ?ol))
     = map_option observe (run ?h (Refetch # ?evs @ [last (settle 0 ?ol)]))"
    unfolding r by simp
  have sh2: "?evs2 \<in> shuffles (settle 0 ?on) (Refetch # butlast (settle (Suc 0) ?ol))"
    by simp
  from last_completion_writes_its_field
         [OF wl wn n, where evs = ?evs2, THEN conjunct2, rule_format, OF sh2]
  obtain g where r2: "run ?h (Refetch # ?evs2 @ [last (settle (Suc 0) ?ol)]) = Some g"
    and l2: "\<not> loading g"
    and d2: "data g = (case written_data ?ol of Some v \<Rightarrow> v
                       | None \<Rightarrow> (case written_data ?on of Some v \<Rightarrow> v | None \<Rightarrow> data ?h))"
    and e2: "error g = (case written_error ?ol of Some m \<Rightarrow> m
                        | None \<Rightarrow> (case written_error ?on of Some m \<Rightarrow> m | None \<Rightarrow> error ?h))"
    by blast
  have 3: "map_option observe (run ?h (Refetch # ?evs2 @ [last (settle (Suc 0) ?ol)]))
     = Some (JArray [JNumber 1], False, JString ''Failed to fetch'')"
    unfolding r2 using l2 d2 e2 by (simp add: observe_def)
  from wl we n sh 1 2 wn sh2 3 show ?thesis by (intro conjI)
qed

text \<open>
  The claim as written fails when the two attempts end differently. Attempt 0 is
  started by mounting, attempt 1 by \<open>refetch\<close> before attempt 0 has resumed; the request
  of attempt 1 rejects, and then attempt 0 succeeds and completes last. The final
  \<open>error\<close> is the message of attempt 1 and the consumer reads Failed, while attempt 0
  alone leaves \<open>error\<close> at \<open>null\<close>.
\<close>

theorem earlier_completion_still_shows:
  "map_option observe
     (run (mount ''https://jsonplaceholder.typicode.com/posts'' [])
        [Refetch,
         FetchSettles 1 (Rejects (JError ''Failed to fetch'')),
         FetchSettles 0 (Resolves \<lparr>ok = True, status = 200, statusText = ''OK''\<rparr>),
         JsonSettles 0 (Resolves (JArray [JNumber 1]))])
     = Some (JArray [JNumber 1], False, JString ''Failed to fetch'') \<and>
   map_option status_of
     (run (mount ''https://jsonplaceholder.typicode.com/posts'' [])
        [Refetch,
         FetchSettles 1 (Rejects (JError ''Failed to fetch'')),
         FetchSettles 0 (Resolves \<lparr>ok = True, status = 200, statusText = ''OK''\<rparr>),
         JsonSettles 0 (Resolves (JArray [JNumber 1]))])
     = Some (Some Failed) \<and>
   map_option observe
     (run (mount ''https://jsonplaceholder.typicode.com/posts'' [])
        [FetchSettles 0 (Resolves \<lparr>ok = True, status = 200, statusText = ''OK''\<rparr>),
         JsonSettles 0 (Resolves (JArray [JNumber 1]))])
     = Some (JArray [JNumber 1], False, JNull)"
  by (simp add: mount_def useState_initial_def hook_defs observe_def status_of_def Users_def)

subsection \<open>What a failed attempt leaves alone\<close>

text \<open>
  C10. \<open>data\<close> is written only when a decoded body arrives: any run of events without
  such an arrival, whatever calls of \<open>fetchData\<close>, renders and failures it contains,
  leaves \<open>data\<close> as it was. In particular a whole attempt that ends in \<open>catch\<close> (the
  request rejects, the response is not \<open>ok\<close>, or the response is \<open>ok\<close> and the decode
  rejects), from the call of \<open>fetchData\<close> to the \<open>finally\<close> block, leaves \<open>data\<close>,
  \<open>url\<close> and \<open>options\<close> unchanged and changes only \<open>error\<close> and \<open>loading\<close> of what the
  hook returns; and after an attempt that succeeded with payload \<open>v\<close>, a second attempt
  that fails leaves \<open>data\<close> at \<open>v\<close>.
\<close>

theorem failed_attempt_keeps_data:
  "(run h evs = Some h' \<and> \<not> list_ex ends_in_success evs \<longrightarrow> data h' = data h) \<and>
   (well_formed out \<and> written_data out = None \<and> n = length (attempts h) \<longrightarrow>
      (\<exists>h'. run h (Refetch # settle n out) = Some h' \<and>
            \<not> list_ex ends_in_success (Refetch # settle n out) \<and>
            data h' = data h \<and> \<not> loading h' \<and>
            error h' = (case written_error out of Some m \<Rightarrow> m | None \<Rightarrow> error h) \<and>
            url h' = url h \<and> options h' = options h)) \<and>
   (ok r \<and> well_formed out \<and> written_data out = None \<and> n = length (attempts h) \<longrightarrow>
      map_option data
        (run h ((Refetch # settle n (Success r v)) @ (Refetch # settle (Suc n) out)))
      = Some v)"
proof (intro conjI impI)
  assume "run h evs = Some h' \<and> \<not> list_ex ends_in_success evs"
  then show "data h' = data h"
    using run_data_unchanged by blast
next
  assume "well_formed out \<and> written_data out = None \<and> n = length (attempts h)"
  then show "\<exists>h'. run h (Refetch # settle n out) = Some h' \<and>
            \<not> list_ex ends_in_success (Refetch # settle n out) \<and>
            data h' = data h \<and> \<not> loading h' \<and>
            error h' = (case written_error out of Some m \<Rightarrow> m | None \<Rightarrow> error h) \<and>
            url h' = url h \<and> options h' = options h"
    by (cases out) (auto simp: hook_defs split: option.splits)
next
  assume "ok r \<and> well_formed out \<and> written_data out = None \<and> n = length (attempts h)"
  then show "map_option data
        (run h ((Refetch # settle n (Success r v)) @ (Refetch # settle (Suc n) out)))
      = Some v"
    by (cases out) (auto simp: hook_defs nth_append split: option.splits)
qed

theorem failed_attempt_keeps_data_witness:
  "well_formed
     (DecodeError \<lparr>ok = True, status = 200, statusText = ''OK''\<rparr>
        (JError ''Unexpected end of JSON input'')) \<and>
   written_data
     (DecodeError \<lparr>ok = True, status = 200, statusText = ''OK''\<rparr>
        (JError ''Unexpected end of JSON input'')) = None \<and>
   0 = length (attempts (useState_initial ''/posts'' [])) \<and>
   ok \<lparr>ok = True, status = 200, statusText = ''OK''\<rparr> \<and>
   \<not> list_ex ends_in_success
       (Refetch # settle 0
          (DecodeError \<lparr>ok = True, status = 200, statusText = ''OK''\<rparr>
             (JError ''Unexpected end of JSON input''))) \<and>
   map_option data
     (run (useState_initial ''/posts'' [])
        (Refetch # settle 0
           (DecodeError \<lparr>ok = True, status = 200, statusText = ''OK''\<rparr>
              (JError ''Unexpected end of JSON input''))))
     = Some JNull \<and>
   map_option data
     (run (useState_initial ''/posts'' [])
        ((Refetch # settle 0
            (Success \<lparr>ok = True, status = 200, statusText = ''OK''\<rparr> (JArray [JNumber 1]))) @
         (Refetch # settle (Suc 0)
            (DecodeError \<lparr>ok = True, status = 200, statusText = ''OK''\<rparr>
               (JError ''Unexpected end of JSON input'')))))
     = Some (JArray [JNumber 1])"
proof -
  let ?r = "\<lparr>ok = True, status = 200, statusText = ''OK''\<rparr>"
  let ?out = "DecodeError ?r (JError ''Unexpected end of JSON input'')"
  let ?h = "useState_initial ''/posts'' []"
  let ?v = "JArray [JNumber 1]"
  have w: "well_formed ?out" and wd: "written_data ?out = None" and k: "ok ?r"
    by simp_all
  have n: "0 = length (attempts ?h)"
    by (simp add: useState_initial_def)
  have d0: "data ?h = JNull"
    by (simp add: useState_initial_def)
  note t = failed_attempt_keeps_data
             [where h = ?h and out = ?out and n = 0 and r = ?r and v = ?v]
  from t w wd n
  obtain h' where r: "run ?h (Refetch # settle 0 ?out) = Some h'"
    and ns: "\<not> list_ex ends_in_success (Refetch # settle 0 ?out)"
    by blast
  from failed_attempt_keeps_data
         [where h = ?h and evs = "Refetch # settle 0 ?out" and h' = h', THEN conjunct1]
       r ns
  have "data h' = data ?h"
    by blast
  then have 1: "map_option data (run ?h (Refetch # settle 0 ?out)) = Some JNull"
    unfolding r d0 by simp
  from t k w wd n
  have 2: "map_option data
             (run ?h ((Refetch # settle 0 (Success ?r ?v)) @ (Refetch # settle (Suc 0) ?out)))
           = Some ?v"
    by blast
  from w wd n k ns 1 2 show ?thesis
    by (intro conjI)
qed

end
